theory Spec2Isabelle
  imports Complex_Main "HOL-Library.Word"
begin

section \<open>JavaScript values\<close>

text \<open>
  A JavaScript string is a sequence of UTF-16 code units and \<^verbatim>\<open>s.length\<close> counts them,
  so a string is a list of 16-bit words. \<open>js\<close> writes an ASCII literal as such a list;
  code units beyond ASCII are written as numbers (\<open>0xE9\<close> is e-acute).
\<close>

type_synonym jsstring = "16 word list"

definition js :: "string \<Rightarrow> jsstring" where
  "js s = map of_char s"

text \<open>Truthiness of an optional string: \<^verbatim>\<open>undefined\<close> and \<^verbatim>\<open>""\<close> are falsy.\<close>

fun truthy :: "jsstring option \<Rightarrow> bool" where
  "truthy None = False"
| "truthy (Some s) = (s \<noteq> [])"

section \<open>The page estimator (services/pdf.ts)\<close>

record Chart =
  chart_type :: jsstring
  chart_data :: "(jsstring \<times> rat) list"
  chart_title :: jsstring

text \<open>
  The interface declares \<^verbatim>\<open>title: string\<close>; the orchestrator copies the title from the
  parsed outline, where the field may be missing, so it is optional here.
\<close>

record Chapter =
  title :: "jsstring option"
  content :: jsstring
  image :: "jsstring option"
  chart :: "Chart option"

datatype Font = Helvetica | Times | Courier

datatype Quality = Standard | High | Ultra

record PDFOptions =
  primaryColor :: jsstring
  font :: Font
  headerText :: "jsstring option"
  footerText :: "jsstring option"
  logo :: "jsstring option"
  watermark :: "jsstring option"
  quality :: Quality
  noCompression :: bool

text \<open>
  \<^verbatim>\<open>content.split('\n\n')\<close>: the pieces between the occurrences of two consecutive line
  feeds, found from the left without overlap. The first argument holds the current piece,
  reversed. The empty string splits into one empty piece.
\<close>

fun split_nn :: "jsstring \<Rightarrow> jsstring \<Rightarrow> jsstring list" where
  "split_nn acc (a # b # cs) =
     (if a = 0x0A \<and> b = 0x0A then rev acc # split_nn [] cs
      else split_nn (a # acc) (b # cs))"
| "split_nn acc [a] = [rev (a # acc)]"
| "split_nn acc [] = [rev acc]"

definition paragraphs_of :: "jsstring \<Rightarrow> jsstring list" where
  "paragraphs_of s = split_nn [] s"

text \<open>
  The constants of \<^verbatim>\<open>estimatePageCount\<close>. JavaScript numbers are doubles; every value
  computed here is an integer or a multiple of \<open>1/8\<close> far below \<open>2^53\<close>, and the two
  quotients under \<^verbatim>\<open>Math.ceil\<close> are either integers or at least \<open>1/1896\<close> away from
  one, so the double arithmetic agrees with the exact rational arithmetic used here.
\<close>

definition margin :: rat where "margin = 20"
definition pageWidth :: rat where "pageWidth = 210"
definition maxLineWidth :: rat where "maxLineWidth = pageWidth - margin * 2"
definition lineHeight :: rat where "lineHeight = 7"
definition pageHeight :: rat where "pageHeight = 297"
definition contentHeightPerPage :: rat where
  "contentHeightPerPage = pageHeight - margin * 2 - 20"

text \<open>The body of the inner \<^verbatim>\<open>paragraphs.forEach\<close>: one paragraph added to \<open>currentY\<close>.\<close>

definition lines_of :: "jsstring \<Rightarrow> int" where
  "lines_of p = \<lceil>(of_nat (length p) * (1 / 4)) / maxLineWidth\<rceil>"

definition add_paragraph :: "jsstring \<Rightarrow> rat \<Rightarrow> rat" where
  "add_paragraph p currentY = currentY + (of_int (lines_of p) * lineHeight + 5)"

text \<open>\<open>currentY\<close> of one chapter after the heading, the image and the paragraphs.\<close>

definition chapterY :: "Chapter \<Rightarrow> rat" where
  "chapterY chapter =
     fold add_paragraph (paragraphs_of (content chapter))
       (0 + 20 + (if truthy (image chapter) then (maxLineWidth * 9) / 16 + 10 else 0))"

text \<open>The body of the outer \<^verbatim>\<open>chapters.forEach\<close>: one chapter added to \<open>totalPages\<close>.\<close>

definition add_chapter :: "Chapter \<Rightarrow> int \<Rightarrow> int" where
  "add_chapter chapter totalPages =
     totalPages + \<lceil>chapterY chapter / contentHeightPerPage\<rceil>
       + (if chart chapter \<noteq> None then 1 else 0)"

definition estimatePageCount :: "Chapter list \<Rightarrow> PDFOptions \<Rightarrow> int" where
  "estimatePageCount chapters options = fold add_chapter chapters 2"

text \<open>The default options of \<^verbatim>\<open>createPDF\<close> (its parameter's default value).\<close>

definition defaultOptions :: PDFOptions where
  "defaultOptions =
     \<lparr>primaryColor = js ''#4f46e5'', font = Helvetica, headerText = None, footerText = None,
      logo = None, watermark = None, quality = High, noCompression = True\<rparr>"

section \<open>Built-ins of the language used by the code\<close>

text \<open>
  The white space that \<^verbatim>\<open>String.prototype.trim\<close> and \<^verbatim>\<open>parseInt\<close> skip: the
  WhiteSpace and LineTerminator code points of ECMAScript.
\<close>

definition is_ws :: "16 word \<Rightarrow> bool" where
  "is_ws c =
     (c \<in> set [0x09, 0x0A, 0x0B, 0x0C, 0x0D, 0x20, 0xA0, 0x1680, 0x2028, 0x2029, 0x202F,
               0x205F, 0x3000, 0xFEFF]
      \<or> (0x2000 \<le> c \<and> c \<le> 0x200A))"

definition trim :: "jsstring \<Rightarrow> jsstring" where
  "trim s = rev (dropWhile is_ws (rev (dropWhile is_ws s)))"

text \<open>\<^verbatim>\<open>s.slice(a, b)\<close> for indices \<open>0 \<le> a \<le> b\<close>; both are clamped to the length.\<close>

definition slice :: "jsstring \<Rightarrow> nat \<Rightarrow> nat \<Rightarrow> jsstring" where
  "slice s a b = take (b - a) (drop a s)"

text \<open>The value of a code unit as a digit: 0-9, then a-z or A-Z for 10-35.\<close>

definition digit_val :: "16 word \<Rightarrow> nat option" where
  "digit_val c =
     (if 0x30 \<le> c \<and> c \<le> 0x39 then Some (unat c - 0x30)
      else if 0x61 \<le> c \<and> c \<le> 0x7A then Some (unat c - 0x61 + 10)
      else if 0x41 \<le> c \<and> c \<le> 0x5A then Some (unat c - 0x41 + 10)
      else None)"

definition is_digit :: "nat \<Rightarrow> 16 word \<Rightarrow> bool" where
  "is_digit R c = (case digit_val c of None \<Rightarrow> False | Some d \<Rightarrow> d < R)"

definition digit_of :: "16 word \<Rightarrow> nat" where
  "digit_of c = (case digit_val c of None \<Rightarrow> 0 | Some d \<Rightarrow> d)"

text \<open>
  \<^verbatim>\<open>parseInt(s, radix)\<close>, with \<open>None\<close> for a radix that is not given and \<open>None\<close> for
  the result \<^verbatim>\<open>NaN\<close>: leading white space is skipped, then a sign, then (for radix 16 or
  none) a prefix \<^verbatim>\<open>0x\<close>; the longest run of digits of the radix is the value. The result
  is exact below \<open>2^53\<close>; the code reads two-character slices and compares page counts
  with 10 and 200, where rounding to a double changes nothing.
\<close>

definition parseInt :: "jsstring \<Rightarrow> nat option \<Rightarrow> int option" where
  "parseInt s radix =
     (let S = dropWhile is_ws s;
          sign = (if S \<noteq> [] \<and> hd S = 0x2D then - 1 else (1::int));
          S = (if S \<noteq> [] \<and> (hd S = 0x2B \<or> hd S = 0x2D) then tl S else S);
          given = (case radix of None \<Rightarrow> 0 | Some r \<Rightarrow> r);
          stripPrefix = (given = 0 \<or> given = 16);
          R = (if given = 0 then 10 else given);
          prefixed = (stripPrefix \<and> 2 \<le> length S \<and> hd S = 0x30
                       \<and> (hd (tl S) = 0x78 \<or> hd (tl S) = 0x58));
          S = (if prefixed then drop 2 S else S);
          R = (if prefixed then 16 else R);
          Z = takeWhile (is_digit R) S
      in if given \<noteq> 0 \<and> (given < 2 \<or> 36 < given) then None
         else if Z = [] then None
         else Some (sign * int (foldl (\<lambda>a c. a * R + digit_of c) 0 Z)))"

section \<open>Text colour in the renderer (services/pdf.ts, createPDF)\<close>

text \<open>
  The three arguments handed to \<^verbatim>\<open>doc.setTextColor\<close>; \<open>None\<close> is \<^verbatim>\<open>NaN\<close>.
  \<open>color_channels\<close> is the parse written out on the title page and in \<^verbatim>\<open>addText\<close>;
  \<open>addText_color\<close> is the branch of \<^verbatim>\<open>addText\<close> on its optional \<^verbatim>\<open>color\<close> argument.
\<close>

type_synonym rgb = "int option \<times> int option \<times> int option"

definition color_channels :: "jsstring \<Rightarrow> rgb" where
  "color_channels color =
     (parseInt (slice color 1 3) (Some 16),
      parseInt (slice color 3 5) (Some 16),
      parseInt (slice color 5 7) (Some 16))"

definition addText_color :: "jsstring option \<Rightarrow> rgb" where
  "addText_color color =
     (case color of
        None \<Rightarrow> (Some 0, Some 0, Some 0)
      | Some c \<Rightarrow> if c \<noteq> [] then color_channels c else (Some 0, Some 0, Some 0))"

definition titlePage_color :: "PDFOptions \<Rightarrow> rgb" where
  "titlePage_color options = color_channels (primaryColor options)"

section \<open>The generation backend (services/gemini.ts)\<close>

text \<open>
  An exception: an \<^verbatim>\<open>Error\<close> with its message, or the \<^verbatim>\<open>TypeError\<close> the engine raises
  when a property of \<^verbatim>\<open>undefined\<close> is read (its message is the engine's own text).
\<close>

datatype exn = Thrown jsstring | TypeError

text \<open>
  What \<^verbatim>\<open>JSON.parse\<close> returns for an outline, as far as the code reads it: an object
  whose \<^verbatim>\<open>title\<close>, \<^verbatim>\<open>chapters\<close> and \<^verbatim>\<open>sections\<close> properties may be missing (\<open>None\<close>).
  The fields carry a prefix (\<open>po_\<close>, \<open>cp_\<close>, \<open>s_\<close>) because \<open>title\<close> is a field of
  \<open>Chapter\<close> already. A value on which reading \<^verbatim>\<open>.chapters.length\<close> throws (\<^verbatim>\<open>{}\<close>,
  \<^verbatim>\<open>null\<close>, a number) reads as \<open>po_chapters = None\<close>; properties of other types than the
  response schema asks for are not modelled.
\<close>

record section_plan =
  s_title :: "jsstring option"

record chapter_plan =
  cp_title :: "jsstring option"
  cp_sections :: "section_plan list option"

record EbookOutline =
  po_title :: "jsstring option"
  po_chapters :: "chapter_plan list option"

text \<open>
  The text of the outline response, by what \<^verbatim>\<open>JSON.parse\<close> makes of it: no text (absent or
  empty), text that is not JSON, or text that parses to a value.
\<close>

datatype outline_text = NoText | NotJson | Json EbookOutline

datatype action = Rewrite | Simplify | Enrich | Formal | Storytelling

text \<open>
  The external model, \<^verbatim>\<open>ai.models.generateContent\<close>, one field per call site. Each call
  either throws (\<open>Inl\<close>) or returns a response; the fields take the values the prompt is
  built from and return what the code reads of the response (\<^verbatim>\<open>response.text\<close>, or the
  \<^verbatim>\<open>inlineData\<close> of each part as mime type and data). \<open>render_call\<close> stands for
  \<^verbatim>\<open>createPDF\<close> and the download that follows it, which run on the jsPDF library and the
  browser: \<open>Some e\<close> when they throw. A field is a function: the same arguments get the
  same answer throughout a run.
\<close>

record env =
  outline_call :: "jsstring \<Rightarrow> jsstring \<Rightarrow> int option \<Rightarrow> int option \<Rightarrow> exn + outline_text"
  chapter_call ::
    "jsstring option \<Rightarrow> jsstring option \<Rightarrow> jsstring option list \<Rightarrow> int option
      \<Rightarrow> exn + jsstring option"
  image_call :: "jsstring option \<Rightarrow> jsstring \<Rightarrow> exn + (jsstring \<times> jsstring) option list"
  refine_call :: "jsstring \<Rightarrow> action \<Rightarrow> exn + jsstring option"
  faq_call :: "jsstring \<Rightarrow> exn + jsstring option"
  render_call :: "jsstring option \<Rightarrow> Chapter list \<Rightarrow> PDFOptions \<Rightarrow> exn option"

text \<open>
  \<^verbatim>\<open>isPrototype ? 2 : Math.max(10, Math.ceil(targetPages / 5))\<close>; \<open>None\<close> is \<^verbatim>\<open>NaN\<close>.
\<close>

definition chaptersCount :: "int option \<Rightarrow> bool \<Rightarrow> int option" where
  "chaptersCount targetPages isPrototype =
     (if isPrototype then Some 2
      else case targetPages of
             None \<Rightarrow> None
           | Some t \<Rightarrow> Some (max 10 \<lceil>(of_int t :: rat) / 5\<rceil>))"

definition outline_error :: jsstring where
  "outline_error = js ''Erreur lors de la g'' @ [0xE9] @ js ''n'' @ [0xE9] @ js ''ration du plan.''"

definition generateOutline ::
  "env \<Rightarrow> jsstring \<Rightarrow> jsstring \<Rightarrow> int option \<Rightarrow> bool \<Rightarrow> exn + EbookOutline" where
  "generateOutline E topic type targetPages isPrototype =
     (case outline_call E topic type targetPages (chaptersCount targetPages isPrototype) of
        Inl e \<Rightarrow> Inl e
      | Inr NoText \<Rightarrow> Inr \<lparr>po_title = None, po_chapters = None\<rparr>
      | Inr NotJson \<Rightarrow> Inl (Thrown outline_error)
      | Inr (Json v) \<Rightarrow> Inr v)"

definition targetWords :: "int option \<Rightarrow> bool \<Rightarrow> int option" where
  "targetWords targetChapterPages isPrototype =
     (if isPrototype then Some 300
      else case targetChapterPages of None \<Rightarrow> None | Some p \<Rightarrow> Some (p * 450))"

definition generateChapterContent ::
  "env \<Rightarrow> jsstring option \<Rightarrow> jsstring option \<Rightarrow> jsstring option list \<Rightarrow> int option \<Rightarrow> bool
    \<Rightarrow> exn + jsstring" where
  "generateChapterContent E ebookTitle chapterTitle sections targetChapterPages isPrototype =
     (case chapter_call E ebookTitle chapterTitle sections
             (targetWords targetChapterPages isPrototype) of
        Inl e \<Rightarrow> Inl e
      | Inr None \<Rightarrow> Inr []
      | Inr (Some t) \<Rightarrow> Inr t)"

definition image_error :: jsstring where
  "image_error =
     [0xC9] @ js ''chec de la g'' @ [0xE9] @ js ''n'' @ [0xE9] @ js ''ration de l'' @ [0x27]
       @ js ''image''"

text \<open>The loop over the parts of the first candidate: the first part with inline data.\<close>

fun first_inline :: "(jsstring \<times> jsstring) option list \<Rightarrow> jsstring option" where
  "first_inline [] = None"
| "first_inline (None # parts) = first_inline parts"
| "first_inline (Some (mimeType, data) # parts) =
     Some (js ''data:'' @ mimeType @ js '';base64,'' @ data)"

definition generateImage :: "env \<Rightarrow> jsstring option \<Rightarrow> jsstring \<Rightarrow> exn + jsstring" where
  "generateImage E prompt style =
     (case image_call E prompt style of
        Inl e \<Rightarrow> Inl e
      | Inr parts \<Rightarrow>
          (case first_inline parts of
             Some url \<Rightarrow> Inr url
           | None \<Rightarrow> Inl (Thrown image_error)))"

text \<open>\<^verbatim>\<open>return response.text || text\<close>: without a text the input comes back.\<close>

definition refineText :: "env \<Rightarrow> jsstring \<Rightarrow> action \<Rightarrow> exn + jsstring" where
  "refineText E text action =
     (case refine_call E text action of
        Inl e \<Rightarrow> Inl e
      | Inr None \<Rightarrow> Inr text
      | Inr (Some t) \<Rightarrow> Inr (if t \<noteq> [] then t else text))"

definition generateFAQ :: "env \<Rightarrow> jsstring \<Rightarrow> exn + jsstring" where
  "generateFAQ E chapterContent =
     (case faq_call E chapterContent of
        Inl e \<Rightarrow> Inl e
      | Inr None \<Rightarrow> Inr []
      | Inr (Some t) \<Rightarrow> Inr t)"

section \<open>The orchestrator (components/EbookGenerator.tsx)\<close>

datatype GenerationState = Idle | Outline | Content | Pdf | Done | Error | Splitting | Refining

text \<open>What \<^verbatim>\<open>setError\<close> shows: a given text, or the engine's text of a \<^verbatim>\<open>TypeError\<close>.\<close>

datatype shown = Message jsstring | EngineMessage

text \<open>
  The component's state that the handlers read and write. The marketing assets, the file
  size, the history and the active tab are left out: they are written after the calls that
  the properties below are about and are never read by the handlers.
\<close>

record Session =
  topic :: jsstring
  ebookType :: jsstring
  imageStyle :: jsstring
  isPrototype :: bool
  targetPages :: int
  customPages :: jsstring
  pdfOptions :: PDFOptions
  state :: GenerationState
  error :: "shown option"
  outline :: "EbookOutline option"
  currentChapterIndex :: nat
  generatedChapters :: "Chapter list"
  estimatedPages :: int

text \<open>
  The calls made to the generation backend, in order, with the chapter index where there
  is one. The code keeps no such log; it is added to count the calls.
\<close>

datatype call = OutlineCall | ChapterCall nat | RefineCall nat | ImageCall nat | MarketingCall

text \<open>\<^verbatim>\<open>customPages ? parseInt(customPages) : targetPages\<close>\<close>

definition finalTarget :: "Session \<Rightarrow> int option" where
  "finalTarget s =
     (if customPages s \<noteq> [] then parseInt (customPages s) None else Some (targetPages s))"

text \<open>\<^verbatim>\<open>finalTarget < 10 || finalTarget > 200\<close>; both comparisons are false on \<^verbatim>\<open>NaN\<close>.\<close>

definition out_of_range :: "int option \<Rightarrow> bool" where
  "out_of_range t = (case t of None \<Rightarrow> False | Some p \<Rightarrow> p < 10 \<or> 200 < p)"

definition range_error :: jsstring where
  "range_error =
     js ''Le nombre de pages doit '' @ [0xEA] @ js ''tre compris entre 10 et 200.''"

definition generic_error :: jsstring where
  "generic_error = js ''Une erreur est survenue.''"

text \<open>The \<^verbatim>\<open>catch\<close> of \<^verbatim>\<open>handleGenerate\<close>: \<^verbatim>\<open>setError(err.message || ...); setState('error')\<close>.\<close>

definition caught :: "exn \<Rightarrow> Session \<Rightarrow> Session" where
  "caught e s =
     s\<lparr>error := Some (case e of
                        Thrown m \<Rightarrow> Message (if m \<noteq> [] then m else generic_error)
                      | TypeError \<Rightarrow> EngineMessage),
       state := Error\<rparr>"

text \<open>
  \<^verbatim>\<open>Math.ceil(finalTarget / generatedOutline.chapters.length)\<close>. For an outline without
  chapters JavaScript gives \<^verbatim>\<open>Infinity\<close>, which the loop over no chapters never reads.
\<close>

definition pagesPerChapter :: "int option \<Rightarrow> nat \<Rightarrow> int option" where
  "pagesPerChapter t n =
     (case t of None \<Rightarrow> None | Some p \<Rightarrow> Some \<lceil>(of_int p :: rat) / of_nat n\<rceil>)"

text \<open>\<^verbatim>\<open>currentEstimated < (i + 1) * pagesPerChapter\<close>, false when the right side is \<^verbatim>\<open>NaN\<close>.\<close>

definition below_target :: "int \<Rightarrow> nat \<Rightarrow> int option \<Rightarrow> bool" where
  "below_target currentEstimated i ppc =
     (case ppc of None \<Rightarrow> False | Some p \<Rightarrow> currentEstimated < (int i + 1) * p)"

text \<open>The chapter under construction, \<^verbatim>\<open>{ title: chapterOutline.title, content }\<close>.\<close>

definition draft :: "jsstring option \<Rightarrow> jsstring \<Rightarrow> Chapter" where
  "draft t c = \<lparr>title = t, content = c, image = None, chart = None\<rparr>"

text \<open>
  The enrichment loop of \<^verbatim>\<open>handleGenerate\<close>. The loop may run forever, which is the value
  \<open>None\<close>. It returns the content it ends with, or the exception of a \<^verbatim>\<open>refineText\<close> call
  that threw, and in both cases the number \<open>k\<close> of \<^verbatim>\<open>refineText\<close> calls made.
\<close>

partial_function (option) enrichLoop ::
  "env \<Rightarrow> PDFOptions \<Rightarrow> bool \<Rightarrow> Chapter list \<Rightarrow> jsstring option \<Rightarrow> nat \<Rightarrow> int option
    \<Rightarrow> jsstring \<Rightarrow> int \<Rightarrow> nat \<Rightarrow> ((exn + jsstring) \<times> nat) option" where
  "enrichLoop E opts isProto chapters ttl i ppc content' currentEstimated k =
     (if \<not> isProto \<and> below_target currentEstimated i ppc \<and> length content' < 15000 then
        (case refineText E content' Enrich of
           Inl e \<Rightarrow> Some (Inl e, k + 1)
         | Inr moreContent \<Rightarrow>
             enrichLoop E opts isProto chapters ttl i ppc moreContent
               (estimatePageCount (chapters @ [draft ttl moreContent]) opts) (k + 1))
      else Some (Inr content', k))"

declare enrichLoop.simps [code]

text \<open>
  The \<^verbatim>\<open>for\<close> loop over the chapters of the outline, from index \<open>i\<close> with the plans still to
  do. \<open>chapters\<close> is the local array, \<open>s\<close> the component state, \<open>tr\<close> the calls so far. The
  result is the exception that left the loop or the finished array.
\<close>

fun chapterLoop ::
  "env \<Rightarrow> PDFOptions \<Rightarrow> bool \<Rightarrow> jsstring \<Rightarrow> jsstring option \<Rightarrow> int option \<Rightarrow> nat
    \<Rightarrow> chapter_plan list \<Rightarrow> Chapter list \<Rightarrow> Session \<Rightarrow> call list
    \<Rightarrow> ((exn + Chapter list) \<times> Session \<times> call list) option" where
  "chapterLoop E opts isProto style bookTitle ppc i [] chapters s tr =
     Some (Inr chapters, s, tr)"
| "chapterLoop E opts isProto style bookTitle ppc i (chapterOutline # rest) chapters s tr =
     (let s = s\<lparr>currentChapterIndex := i\<rparr> in
      case cp_sections chapterOutline of
        None \<Rightarrow> Some (Inl TypeError, s, tr)
      | Some sections \<Rightarrow>
          (case generateChapterContent E bookTitle (cp_title chapterOutline)
                  (map s_title sections) ppc isProto of
             Inl e \<Rightarrow> Some (Inl e, s, tr @ [ChapterCall i])
           | Inr content0 \<Rightarrow>
               (case enrichLoop E opts isProto chapters (cp_title chapterOutline) i ppc content0
                       (estimatePageCount
                          (chapters @ [draft (cp_title chapterOutline) content0]) opts) 0 of
                  None \<Rightarrow> None
                | Some (Inl e, k) \<Rightarrow>
                    Some (Inl e, s, tr @ [ChapterCall i] @ replicate k (RefineCall i))
                | Some (Inr content1, k) \<Rightarrow>
                    (let wanted = (i mod (if isProto then 1 else 3) = 0);
                         img = (if wanted then
                                  (case generateImage E (cp_title chapterOutline) style of
                                     Inl e \<Rightarrow> None
                                   | Inr url \<Rightarrow> Some url)
                                else None);
                         chapters = chapters @
                           [\<lparr>title = cp_title chapterOutline, content = content1,
                             image = img, chart = None\<rparr>];
                         s = s\<lparr>generatedChapters := chapters,
                               estimatedPages := estimatePageCount chapters opts\<rparr>;
                         tr = tr @ [ChapterCall i] @ replicate k (RefineCall i)
                                @ (if wanted then [ImageCall i] else [])
                     in chapterLoop E opts isProto style bookTitle ppc (i + 1) rest
                          chapters s tr))))"

text \<open>
  \<^verbatim>\<open>handleGenerate\<close>: the new state and the backend calls made, or \<open>None\<close> when it never
  returns. \<open>s0\<close> is the state the handler was created with, which its closure keeps
  reading; \<open>s\<close> is the state as the setters change it. The marketing call is started and
  not awaited; its result is not read here.
\<close>

definition handleGenerate :: "env \<Rightarrow> Session \<Rightarrow> (Session \<times> call list) option" where
  "handleGenerate E s0 =
     (let target = finalTarget s0 in
      if trim (topic s0) = [] then Some (s0, [])
      else if out_of_range target then Some (s0\<lparr>error := Some (Message range_error)\<rparr>, [])
      else
        (let s = s0\<lparr>state := Outline, error := None, outline := None, generatedChapters := [],
                     currentChapterIndex := 0, estimatedPages := 0\<rparr>
         in case generateOutline E (topic s0) (ebookType s0) target (isPrototype s0) of
              Inl e \<Rightarrow> Some (caught e s, [OutlineCall])
            | Inr generatedOutline \<Rightarrow>
                (let s = s\<lparr>outline := Some generatedOutline\<rparr>;
                     s = s\<lparr>state := Content\<rparr>
                 in case po_chapters generatedOutline of
                      None \<Rightarrow> Some (caught TypeError s, [OutlineCall])
                    | Some plans \<Rightarrow>
                        (case chapterLoop E (pdfOptions s0) (isPrototype s0) (imageStyle s0)
                                (po_title generatedOutline)
                                (pagesPerChapter target (length plans))
                                0 plans [] s [OutlineCall] of
                           None \<Rightarrow> None
                         | Some (Inl e, s, tr) \<Rightarrow> Some (caught e s, tr)
                         | Some (Inr chapters, s, tr) \<Rightarrow>
                             (let s = s\<lparr>state := Pdf\<rparr>;
                                  tr = tr @ [MarketingCall]
                              in case render_call E (po_title generatedOutline) chapters
                                        (pdfOptions s0) of
                                   Some e \<Rightarrow> Some (caught e s, tr)
                                 | None \<Rightarrow>
                                     (case po_title generatedOutline of
                                        None \<Rightarrow> Some (caught TypeError s, tr)
                                      | Some t \<Rightarrow> Some (s\<lparr>state := Done\<rparr>, tr)))))))"

definition faq_heading :: jsstring where
  "faq_heading = js ''\<newline>\<newline>### Foire Aux Questions\<newline>''"

text \<open>
  \<^verbatim>\<open>handleRefine\<close> and \<^verbatim>\<open>addFAQ\<close>. Reading \<^verbatim>\<open>generatedChapters[index].content\<close> past the end
  of the array throws inside the \<^verbatim>\<open>try\<close>, whose empty \<^verbatim>\<open>catch\<close> swallows every exception.
\<close>

definition handleRefine :: "env \<Rightarrow> Session \<Rightarrow> nat \<Rightarrow> action \<Rightarrow> Session" where
  "handleRefine E s index act =
     (let s = s\<lparr>state := Refining\<rparr>;
          s = (if index < length (generatedChapters s) then
                 (case refineText E (content (generatedChapters s ! index)) act of
                    Inl e \<Rightarrow> s
                  | Inr refined \<Rightarrow>
                      s\<lparr>generatedChapters :=
                          (generatedChapters s)
                            [index := (generatedChapters s ! index)\<lparr>content := refined\<rparr>]\<rparr>)
               else s)
      in s\<lparr>state := Done\<rparr>)"

definition addFAQ :: "env \<Rightarrow> Session \<Rightarrow> nat \<Rightarrow> Session" where
  "addFAQ E s index =
     (let s = s\<lparr>state := Refining\<rparr>;
          s = (if index < length (generatedChapters s) then
                 (case generateFAQ E (content (generatedChapters s ! index)) of
                    Inl e \<Rightarrow> s
                  | Inr faq \<Rightarrow>
                      s\<lparr>generatedChapters :=
                          (generatedChapters s)
                            [index := (generatedChapters s ! index)
                               \<lparr>content := content (generatedChapters s ! index)
                                            @ faq_heading @ faq\<rparr>]\<rparr>)
               else s)
      in s\<lparr>state := Done\<rparr>)"


section \<open>Example inputs\<close>

text \<open>The component's initial state (its \<^verbatim>\<open>useState\<close> defaults).\<close>

definition initialSession :: Session where
  "initialSession =
     \<lparr>topic = [], ebookType = js ''Business'', imageStyle = js ''Business'', isPrototype = True,
      targetPages = 10, customPages = [],
      pdfOptions = \<lparr>primaryColor = js ''#4f46e5'', font = Helvetica,
        headerText = Some (js ''EbookAI SaaS Premium''),
        footerText = Some (js ''Confidentiel - 2026''), logo = None, watermark = Some [],
        quality = High, noCompression = True\<rparr>,
      state = Idle, error = None, outline = None, currentChapterIndex = 0,
      generatedChapters = [], estimatedPages = 0\<rparr>"

text \<open>
  Backends for the examples. \<open>silentEnv\<close> answers every call with an empty response and
  renders without error; the others change one or two calls.
\<close>

definition silentEnv :: env where
  "silentEnv =
     \<lparr>outline_call = (\<lambda>topic type pages n. Inr NoText),
      chapter_call = (\<lambda>book chapter sections wordsTarget. Inr None),
      image_call = (\<lambda>prompt style. Inr []),
      refine_call = (\<lambda>text act. Inr None),
      faq_call = (\<lambda>text. Inr None),
      render_call = (\<lambda>t chapters options. None)\<rparr>"

definition plan :: "string \<Rightarrow> chapter_plan" where
  "plan t = \<lparr>cp_title = Some (js t), cp_sections = Some [\<lparr>s_title = Some (js ''Section'')\<rparr>]\<rparr>"

definition outlineEnv :: "chapter_plan list \<Rightarrow> env" where
  "outlineEnv plans =
     silentEnv\<lparr>outline_call :=
       (\<lambda>topic type pages n.
          Inr (Json \<lparr>po_title = Some (js ''Guide''), po_chapters = Some plans\<rparr>))\<rparr>"

definition notJsonEnv :: env where
  "notJsonEnv = silentEnv\<lparr>outline_call := (\<lambda>topic type pages n. Inr NotJson)\<rparr>"

definition growEnv :: env where
  "growEnv = silentEnv\<lparr>refine_call := (\<lambda>text act. Inr (Some (text @ js '' and more'')))\<rparr>"

definition replyEnv :: env where
  "replyEnv =
     silentEnv\<lparr>refine_call := (\<lambda>text act. Inr (Some (js ''Bonjour''))),
               faq_call := (\<lambda>text. Inr (Some (js ''Q?'')))\<rparr>"

definition downEnv :: env where
  "downEnv =
     silentEnv\<lparr>refine_call := (\<lambda>text act. Inl (Thrown (js ''503''))),
               faq_call := (\<lambda>text. Inl (Thrown (js ''503'')))\<rparr>"

text \<open>A backend whose outline call returns the given parsed value.\<close>

definition shapeEnv :: "EbookOutline \<Rightarrow> env" where
  "shapeEnv v = silentEnv\<lparr>outline_call := (\<lambda>topic type pages n. Inr (Json v))\<rparr>"

definition noTitle :: EbookOutline where
  "noTitle = \<lparr>po_title = None, po_chapters = Some [plan ''One'']\<rparr>"

definition noSections :: EbookOutline where
  "noSections =
     \<lparr>po_title = Some (js ''Guide''),
      po_chapters = Some [plan ''One'', \<lparr>cp_title = Some (js ''Two''), cp_sections = None\<rparr>]\<rparr>"

definition noChapterTitle :: EbookOutline where
  "noChapterTitle =
     \<lparr>po_title = Some (js ''Guide''),
      po_chapters = Some [\<lparr>cp_title = None, cp_sections = Some []\<rparr>]\<rparr>"


definition plain :: "jsstring \<Rightarrow> Chapter" where
  "plain s = \<lparr>title = Some (js ''T''), content = s, image = None, chart = None\<rparr>"

definition productivity :: Session where
  "productivity = initialSession\<lparr>topic := js ''Productivity''\<rparr>"


definition fiftyPages :: Session where
  "fiftyPages =
     initialSession\<lparr>topic := js ''Productivity'', isPrototype := False, targetPages := 50\<rparr>"

definition blankTopic :: Session where
  "blankTopic = initialSession\<lparr>topic := js ''   '', targetPages := 5\<rparr>"

definition fivePages :: Session where
  "fivePages = initialSession\<lparr>topic := js ''Productivity'', customPages := js ''5''\<rparr>"

definition editing :: Session where
  "editing = initialSession\<lparr>generatedChapters := [plain (js ''Hello'')], state := Done\<rparr>"

text \<open>Nineteen one-letter paragraphs, 55 code units in all.\<close>

definition shortParagraphs :: jsstring where
  "shortParagraphs = concat (replicate 18 (js ''a\<newline>\<newline>'')) @ js ''a''"

section \<open>Properties of the estimator\<close>

lemma fold_add_paragraph:
  "fold add_paragraph ps y = y + sum_list (map (\<lambda>p. of_int (lines_of p) * lineHeight + 5) ps)"
  by (induction ps arbitrary: y) (simp_all add: add_paragraph_def)

lemma lines_of_nonneg: "0 \<le> lines_of p"
  by (simp add: lines_of_def maxLineWidth_def pageWidth_def margin_def)

lemma lines_of_mono: "length p \<le> length q \<Longrightarrow> lines_of p \<le> lines_of q"
  unfolding lines_of_def maxLineWidth_def pageWidth_def margin_def
  by (intro ceiling_mono divide_right_mono mult_right_mono) simp_all

lemma paragraph_gap_nonneg: "0 \<le> of_int (lines_of p) * lineHeight + (5::rat)"
  using lines_of_nonneg [of p] by (simp add: lineHeight_def)

lemma paragraphs_sum_nonneg:
  "0 \<le> sum_list (map (\<lambda>p. of_int (lines_of p) * lineHeight + (5::rat)) ps)"
  by (induction ps) (simp_all add: paragraph_gap_nonneg)

lemma chapterY_ge_heading: "20 \<le> chapterY c"
proof -
  have "(0::rat) \<le> (if truthy (image c) then (maxLineWidth * 9) / 16 + 10 else 0)"
    by (simp add: maxLineWidth_def pageWidth_def margin_def)
  then show ?thesis
    using paragraphs_sum_nonneg [of "paragraphs_of (content c)"]
    by (simp add: chapterY_def fold_add_paragraph)
qed

lemma chapter_pages_pos: "1 \<le> \<lceil>chapterY c / contentHeightPerPage\<rceil>"
proof -
  have "0 < chapterY c / contentHeightPerPage"
    using chapterY_ge_heading [of c]
    by (simp add: contentHeightPerPage_def pageHeight_def margin_def)
  then show ?thesis by (simp add: less_ceiling_iff)
qed

lemma fold_add_chapter:
  "fold add_chapter cs t = t + sum_list (map (\<lambda>c. add_chapter c 0) cs)"
  by (induction cs arbitrary: t) (simp_all add: add_chapter_def)

lemma add_chapter_ge_one: "1 \<le> add_chapter c 0"
  using chapter_pages_pos [of c] by (simp add: add_chapter_def)

lemma sum_chapters_ge_length: "int (length cs) \<le> sum_list (map (\<lambda>c. add_chapter c 0) cs)"
proof (induction cs)
  case Nil
  show ?case by simp
next
  case (Cons c cs)
  then show ?case using add_chapter_ge_one [of c] by simp
qed

text \<open>
  C8. For every options value the estimate of the empty chapter list is exactly 2: the
  title page and the table-of-contents page.
\<close>

theorem estimatePageCount_empty: "estimatePageCount [] options = 2"
  by (simp add: estimatePageCount_def)

text \<open>
  C9. For every chapter list and every options value the estimate is at least 2 plus the
  number of chapters: the heading allowance of 20 already makes a chapter's vertical
  offset positive, so its page conversion rounds up to at least one page.
\<close>

theorem estimatePageCount_at_least_one_page_per_chapter:
  "2 + int (length chapters) \<le> estimatePageCount chapters options"
  using sum_chapters_ge_length [of chapters]
  by (simp add: estimatePageCount_def fold_add_chapter)

text \<open>
  C10. The estimate does not depend on the options argument: any two options values give
  the same page count for the same chapter list.
\<close>

theorem estimatePageCount_ignores_options:
  "estimatePageCount chapters options1 = estimatePageCount chapters options2"
  by (simp add: estimatePageCount_def)

lemma sum_paragraphs_mono:
  "length ps \<le> length qs \<Longrightarrow> (\<forall>i < length ps. length (ps ! i) \<le> length (qs ! i)) \<Longrightarrow>
   sum_list (map (\<lambda>p. of_int (lines_of p) * lineHeight + (5::rat)) ps)
     \<le> sum_list (map (\<lambda>p. of_int (lines_of p) * lineHeight + 5) qs)"
proof (induction ps arbitrary: qs)
  case Nil
  show ?case using paragraphs_sum_nonneg [of qs] by simp
next
  case (Cons p ps)
  then obtain q qs' where qs: "qs = q # qs'" by (cases qs) auto
  from Cons.prems qs have len: "length ps \<le> length qs'" by simp
  from Cons.prems(2) qs have hd: "length p \<le> length q" by auto
  from Cons.prems(2) qs have tl: "\<forall>i < length ps. length (ps ! i) \<le> length (qs' ! i)" by auto
  have "of_int (lines_of p) * lineHeight \<le> (of_int (lines_of q) * lineHeight :: rat)"
    using lines_of_mono [OF hd] by (simp add: lineHeight_def)
  with Cons.IH [OF len tl] show ?case by (simp add: qs)
qed

lemma estimate_one_chapter_mono:
  "add_chapter c 0 \<le> add_chapter c' 0 \<Longrightarrow>
   estimatePageCount (pre @ c # post) options \<le> estimatePageCount (pre @ c' # post) options"
  unfolding estimatePageCount_def fold_add_chapter by simp

lemma pages_mono:
  "chapterY c \<le> chapterY c' \<Longrightarrow>
   \<lceil>chapterY c / contentHeightPerPage\<rceil> \<le> \<lceil>chapterY c' / contentHeightPerPage\<rceil>"
  by (intro ceiling_mono divide_right_mono)
     (simp_all add: contentHeightPerPage_def pageHeight_def margin_def)

lemma content_mono:
  assumes "length (paragraphs_of s) \<le> length (paragraphs_of s')"
    and "\<forall>i < length (paragraphs_of s).
           length (paragraphs_of s ! i) \<le> length (paragraphs_of s' ! i)"
  shows "add_chapter (c\<lparr>content := s\<rparr>) 0 \<le> add_chapter (c\<lparr>content := s'\<rparr>) 0"
proof -
  have "chapterY (c\<lparr>content := s\<rparr>) \<le> chapterY (c\<lparr>content := s'\<rparr>)"
    using sum_paragraphs_mono [OF assms] by (simp add: chapterY_def fold_add_paragraph)
  from pages_mono [OF this] show ?thesis by (simp add: add_chapter_def)
qed

lemma image_mono: "add_chapter (c\<lparr>image := None\<rparr>) 0 \<le> add_chapter (c\<lparr>image := img\<rparr>) 0"
proof -
  have "chapterY (c\<lparr>image := None\<rparr>) \<le> chapterY (c\<lparr>image := img\<rparr>)"
    by (simp add: chapterY_def fold_add_paragraph maxLineWidth_def pageWidth_def margin_def)
  from pages_mono [OF this] show ?thesis by (simp add: add_chapter_def)
qed

lemma chart_mono: "add_chapter (c\<lparr>chart := None\<rparr>) 0 \<le> add_chapter (c\<lparr>chart := Some ch\<rparr>) 0"
  by (simp add: add_chapter_def chapterY_def)

text \<open>
  C2, as amended. The estimate does not decrease when one chapter's content is replaced by
  a content that splits on blank lines into at least as many paragraphs, each paragraph
  of the old content being no longer than the paragraph at the same position of the new
  one (the other chapters and the options held fixed); and it does not decrease when an
  image or a chart is added to a chapter.
\<close>

theorem estimatePageCount_monotone:
  "(length (paragraphs_of s) \<le> length (paragraphs_of s') \<and>
    (\<forall>i < length (paragraphs_of s).
        length (paragraphs_of s ! i) \<le> length (paragraphs_of s' ! i))
     \<longrightarrow> estimatePageCount (pre @ c\<lparr>content := s\<rparr> # post) options
           \<le> estimatePageCount (pre @ c\<lparr>content := s'\<rparr> # post) options)
   \<and> estimatePageCount (pre @ c\<lparr>image := None\<rparr> # post) options
       \<le> estimatePageCount (pre @ c\<lparr>image := img\<rparr> # post) options
   \<and> estimatePageCount (pre @ c\<lparr>chart := None\<rparr> # post) options
       \<le> estimatePageCount (pre @ c\<lparr>chart := Some ch\<rparr> # post) options"
  using content_mono [of s s' c] image_mono [of c img] chart_mono [of c ch]
  by (simp add: estimate_one_chapter_mono)

text \<open>
  The amended C2 at a concrete input: two paragraphs against three longer ones, then an
  image and a chart added to a chapter.
\<close>

theorem estimatePageCount_monotone_witness:
  "paragraphs_of (js ''ab\<newline>\<newline>c'') = [js ''ab'', js ''c'']
   \<and> paragraphs_of (js ''abc\<newline>\<newline>cd\<newline>\<newline>e'') = [js ''abc'', js ''cd'', js ''e'']
   \<and> estimatePageCount [plain (js ''ab\<newline>\<newline>c'')] defaultOptions
       \<le> estimatePageCount [plain (js ''abc\<newline>\<newline>cd\<newline>\<newline>e'')] defaultOptions
   \<and> estimatePageCount [plain (js ''ab'')] defaultOptions
       \<le> estimatePageCount [(plain (js ''ab'')) \<lparr>image := Some (js ''data:x'')\<rparr>] defaultOptions
   \<and> estimatePageCount [plain (js ''ab'')] defaultOptions
       \<le> estimatePageCount
            [(plain (js ''ab''))
               \<lparr>chart := Some \<lparr>chart_type = js ''bar'', chart_data = [], chart_title = js ''t''\<rparr>\<rparr>]
            defaultOptions"
proof -
  let ?s = "js ''ab\<newline>\<newline>c''" and ?s' = "js ''abc\<newline>\<newline>cd\<newline>\<newline>e''"
  let ?ch = "\<lparr>chart_type = js ''bar'', chart_data = [], chart_title = js ''t''\<rparr>"
  have p: "paragraphs_of ?s = [js ''ab'', js ''c'']"
    by (simp add: paragraphs_of_def js_def)
  have p': "paragraphs_of ?s' = [js ''abc'', js ''cd'', js ''e'']"
    by (simp add: paragraphs_of_def js_def)
  have h: "length (paragraphs_of ?s) \<le> length (paragraphs_of ?s') \<and>
    (\<forall>i < length (paragraphs_of ?s).
        length (paragraphs_of ?s ! i) \<le> length (paragraphs_of ?s' ! i))"
    unfolding p p' by (auto simp: js_def less_Suc_eq)
  have u: "(plain (js ''ab'')) \<lparr>content := t\<rparr> = plain t"
    "(plain t) \<lparr>image := None\<rparr> = plain t" "(plain t) \<lparr>chart := None\<rparr> = plain t" for t
    by (simp_all add: plain_def)
  note m = estimatePageCount_monotone [of ?s ?s' "[]" "plain (js ''ab'')" "[]" defaultOptions
      "Some (js ''data:x'')" ?ch, unfolded u append_Nil]
  from m h have 1: "estimatePageCount [plain ?s] defaultOptions
      \<le> estimatePageCount [plain ?s'] defaultOptions" by blast
  from m have 2: "estimatePageCount [plain (js ''ab'')] defaultOptions
      \<le> estimatePageCount [(plain (js ''ab'')) \<lparr>image := Some (js ''data:x'')\<rparr>] defaultOptions"
    by blast
  from m have 3: "estimatePageCount [plain (js ''ab'')] defaultOptions
      \<le> estimatePageCount [(plain (js ''ab'')) \<lparr>chart := Some ?ch\<rparr>] defaultOptions"
    by blast
  from p p' 1 2 3 show ?thesis by blast
qed

text \<open>
  C2 as stated fails: a content of 19 one-letter paragraphs (55 code units) is estimated at
  two pages, a single paragraph of 55 code units at one, so the longer-or-equal content
  has the smaller estimate.
\<close>

theorem estimatePageCount_not_monotone_in_length:
  "length shortParagraphs \<le> length (replicate 55 (0x62 :: 16 word))
   \<and> estimatePageCount [plain (replicate 55 0x62)] defaultOptions
       < estimatePageCount [plain shortParagraphs] defaultOptions"
  by code_simp

section \<open>Properties of the colour parse\<close>

lemma hex_digit_cases:
  "is_digit 16 c \<Longrightarrow>
   (0x30 \<le> c \<and> c \<le> 0x39) \<or> (0x61 \<le> c \<and> c \<le> 0x7A) \<or> (0x41 \<le> c \<and> c \<le> 0x5A)"
  by (auto simp: is_digit_def digit_val_def split: if_splits)

lemma hex_digit_not_ws: "is_digit 16 c \<Longrightarrow> \<not> is_ws c"
  by (drule hex_digit_cases) (auto simp: is_ws_def word_le_nat_alt)

lemma hex_digit_not_sign: "is_digit 16 c \<Longrightarrow> c \<noteq> 0x2D \<and> c \<noteq> 0x2B"
  by (drule hex_digit_cases) auto

lemma hex_digit_not_x: "is_digit 16 c \<Longrightarrow> c \<noteq> 0x78 \<and> c \<noteq> 0x58"
  by (auto simp: is_digit_def digit_val_def word_le_nat_alt split: if_splits)

lemma digit_of_hex: "is_digit 16 c \<Longrightarrow> digit_of c < 16"
  by (auto simp: is_digit_def digit_of_def split: option.splits)

lemma parseInt_two_hex:
  assumes "is_digit 16 a" "is_digit 16 b"
  shows "parseInt [a, b] (Some 16) = Some (int (digit_of a * 16 + digit_of b))"
  using hex_digit_not_ws [OF assms(1)] hex_digit_not_sign [OF assms(1)]
    hex_digit_not_x [OF assms(2)] assms
  by (simp add: parseInt_def Let_def)

text \<open>
  C5, as amended. For a primary colour made of \<^verbatim>\<open>#\<close> and six hexadecimal digits, the title
  page and \<^verbatim>\<open>addText\<close> hand \<^verbatim>\<open>setTextColor\<close> the three channel values of the digit pairs,
  each at most 255; \<^verbatim>\<open>addText\<close> without a colour, or with the empty string, uses black. No
  other string is turned into black.
\<close>

theorem hex_color_gives_its_channels:
  assumes "is_digit 16 r1" "is_digit 16 r2" "is_digit 16 g1" "is_digit 16 g2"
    "is_digit 16 b1" "is_digit 16 b2"
  shows "titlePage_color (options\<lparr>primaryColor := [0x23, r1, r2, g1, g2, b1, b2]\<rparr>)
           = (Some (int (digit_of r1 * 16 + digit_of r2)),
              Some (int (digit_of g1 * 16 + digit_of g2)),
              Some (int (digit_of b1 * 16 + digit_of b2)))
       \<and> addText_color (Some [0x23, r1, r2, g1, g2, b1, b2])
           = (Some (int (digit_of r1 * 16 + digit_of r2)),
              Some (int (digit_of g1 * 16 + digit_of g2)),
              Some (int (digit_of b1 * 16 + digit_of b2)))
       \<and> int (digit_of r1 * 16 + digit_of r2) \<le> 255
       \<and> int (digit_of g1 * 16 + digit_of g2) \<le> 255
       \<and> int (digit_of b1 * 16 + digit_of b2) \<le> 255
       \<and> addText_color None = (Some 0, Some 0, Some 0)
       \<and> addText_color (Some []) = (Some 0, Some 0, Some 0)"
  using assms digit_of_hex [of r1] digit_of_hex [of r2] digit_of_hex [of g1]
    digit_of_hex [of g2] digit_of_hex [of b1] digit_of_hex [of b2]
  by (simp add: titlePage_color_def addText_color_def color_channels_def slice_def
      parseInt_two_hex)

text \<open>The amended C5 at the default colour \<^verbatim>\<open>#4f46e5\<close>: the channels are 79, 70 and 229.\<close>

theorem hex_color_gives_its_channels_witness:
  "titlePage_color (defaultOptions\<lparr>primaryColor := js ''#4f46e5''\<rparr>)
     = (Some 79, Some 70, Some 229)
   \<and> addText_color (Some (js ''#4f46e5'')) = (Some 79, Some 70, Some 229)"
proof -
  have d: "is_digit 16 0x34" "is_digit 16 0x66" "is_digit 16 0x36" "is_digit 16 0x65"
    "is_digit 16 0x35"
    by (simp_all add: is_digit_def digit_val_def)
  have v: "digit_of 0x34 = 4" "digit_of 0x66 = 15" "digit_of 0x36 = 6" "digit_of 0x65 = 14"
    "digit_of 0x35 = 5"
    by (simp_all add: digit_of_def digit_val_def)
  have c: "js ''#4f46e5'' = [0x23, 0x34, 0x66, 0x34, 0x36, 0x65, 0x35]"
    by (simp add: js_def)
  note t = hex_color_gives_its_channels [of "0x34" "0x66" "0x34" "0x36" "0x65" "0x35"
      defaultOptions, OF d(1) d(2) d(1) d(3) d(4) d(5), unfolded v, folded c]
  from t have "titlePage_color (defaultOptions\<lparr>primaryColor := js ''#4f46e5''\<rparr>)
      = (Some (int (4 * 16 + 15)), Some (int (4 * 16 + 6)), Some (int (14 * 16 + 5)))"
    by (rule conjunct1)
  moreover from t have "addText_color (Some (js ''#4f46e5''))
      = (Some (int (4 * 16 + 15)), Some (int (4 * 16 + 6)), Some (int (14 * 16 + 5)))"
    by (rule conjunct1 [OF conjunct2])
  ultimately show ?thesis by simp
qed

text \<open>
  C5 as stated fails: \<^verbatim>\<open>#12345\<close> has five digits and is rendered as (18, 52, 5), not black;
  \<^verbatim>\<open>red\<close> gives 237 and two \<^verbatim>\<open>NaN\<close>.
\<close>

theorem malformed_color_is_not_black:
  "titlePage_color (defaultOptions\<lparr>primaryColor := js ''#12345''\<rparr>)
     = (Some 18, Some 52, Some 5)
   \<and> addText_color (Some (js ''#12345'')) = (Some 18, Some 52, Some 5)
   \<and> titlePage_color (defaultOptions\<lparr>primaryColor := js ''red''\<rparr>) = (Some 237, None, None)"
  by code_simp

section \<open>Properties of the chapter operations\<close>

text \<open>
  C6. For a chapter of the list and any of the five actions: when \<^verbatim>\<open>refineText\<close> returns a
  text, \<^verbatim>\<open>handleRefine\<close> makes that text the chapter's whole content; when \<^verbatim>\<open>generateFAQ\<close>
  returns, \<^verbatim>\<open>addFAQ\<close> keeps the old content and appends the heading
  \<^verbatim>\<open>### Foire Aux Questions\<close> and the answer; when the backend call throws, either
  operation leaves the chapter list as it was. Both end in the state \<^verbatim>\<open>done\<close>.
\<close>

theorem refine_replaces_and_faq_appends:
  assumes "index < length (generatedChapters s)"
  shows "(refineText E (content (generatedChapters s ! index)) act = Inr refined \<longrightarrow>
            generatedChapters (handleRefine E s index act)
              = (generatedChapters s)
                  [index := (generatedChapters s ! index)\<lparr>content := refined\<rparr>])
       \<and> (refine_call E (content (generatedChapters s ! index)) act = Inl e \<longrightarrow>
            generatedChapters (handleRefine E s index act) = generatedChapters s)
       \<and> (generateFAQ E (content (generatedChapters s ! index)) = Inr faq \<longrightarrow>
            generatedChapters (addFAQ E s index)
              = (generatedChapters s)
                  [index := (generatedChapters s ! index)
                     \<lparr>content := content (generatedChapters s ! index) @ faq_heading @ faq\<rparr>])
       \<and> (faq_call E (content (generatedChapters s ! index)) = Inl e' \<longrightarrow>
            generatedChapters (addFAQ E s index) = generatedChapters s)
       \<and> state (handleRefine E s index act) = Done \<and> state (addFAQ E s index) = Done"
  using assms
  by (simp add: handleRefine_def addFAQ_def refineText_def generateFAQ_def Let_def)

text \<open>
  C6 at a concrete input: the chapter \<^verbatim>\<open>Hello\<close> with a backend that answers and with one
  that throws.
\<close>

theorem refine_replaces_and_faq_appends_witness:
  "generatedChapters (handleRefine replyEnv editing 0 Rewrite) = [plain (js ''Bonjour'')]
   \<and> generatedChapters (handleRefine downEnv editing 0 Rewrite) = [plain (js ''Hello'')]
   \<and> generatedChapters (addFAQ replyEnv editing 0)
       = [plain (js ''Hello'' @ js ''\<newline>\<newline>### Foire Aux Questions\<newline>'' @ js ''Q?'')]
   \<and> generatedChapters (addFAQ downEnv editing 0) = [plain (js ''Hello'')]"
proof -
  let ?old = "content (generatedChapters editing ! 0)"
  have i: "0 < length (generatedChapters editing)"
    by (simp add: editing_def initialSession_def)
  have c: "generatedChapters editing = [plain (js ''Hello'')]"
    by (simp add: editing_def initialSession_def)
  have ok: "refineText replyEnv ?old Rewrite = Inr (js ''Bonjour'')"
    "generateFAQ replyEnv ?old = Inr (js ''Q?'')"
    by (simp_all add: refineText_def generateFAQ_def replyEnv_def silentEnv_def js_def)
  have down: "refine_call downEnv ?old Rewrite = Inl (Thrown (js ''503''))"
    "faq_call downEnv ?old = Inl (Thrown (js ''503''))"
    by (simp_all add: downEnv_def silentEnv_def)
  note a = refine_replaces_and_faq_appends [OF i, of replyEnv Rewrite "js ''Bonjour''" _
      "js ''Q?''"]
  note b = refine_replaces_and_faq_appends [OF i, of downEnv Rewrite _ "Thrown (js ''503'')" _
      "Thrown (js ''503'')"]
  from a ok have 1: "generatedChapters (handleRefine replyEnv editing 0 Rewrite)
      = (generatedChapters editing)
          [0 := (generatedChapters editing ! 0)\<lparr>content := js ''Bonjour''\<rparr>]"
    by blast
  from a ok have 2: "generatedChapters (addFAQ replyEnv editing 0)
      = (generatedChapters editing)
          [0 := (generatedChapters editing ! 0)\<lparr>content := ?old @ faq_heading @ js ''Q?''\<rparr>]"
    by blast
  from b down have 3: "generatedChapters (handleRefine downEnv editing 0 Rewrite)
      = generatedChapters editing" by blast
  from b down have 4: "generatedChapters (addFAQ downEnv editing 0) = generatedChapters editing"
    by blast
  from 1 2 3 4 show ?thesis by (simp add: c plain_def faq_heading_def)
qed

section \<open>Properties of the orchestrator\<close>

text \<open>
  C4, as amended. An invocation with a blank topic returns at once, with no backend call
  and the state exactly as it was: no error is shown. An invocation with a topic and a
  target outside 10..200 returns with no backend call and the state as it was except for
  the error text about the range.
\<close>

theorem handleGenerate_rejects_invalid_input:
  "(trim (topic s) = [] \<longrightarrow> handleGenerate E s = Some (s, []))
   \<and> (trim (topic s) \<noteq> [] \<and> finalTarget s = Some p \<and> (p < 10 \<or> 200 < p) \<longrightarrow>
        handleGenerate E s = Some (s\<lparr>error := Some (Message range_error)\<rparr>, []))"
  by (simp add: handleGenerate_def out_of_range_def)

text \<open>The amended C4 for a topic of three spaces and for a custom target of 5 pages.\<close>

theorem handleGenerate_rejects_invalid_input_witness:
  "handleGenerate silentEnv blankTopic = Some (blankTopic, [])
   \<and> handleGenerate silentEnv fivePages
       = Some (fivePages\<lparr>error := Some (Message range_error)\<rparr>, [])"
proof -
  have blank: "trim (topic blankTopic) = []" by code_simp
  have five: "trim (topic fivePages) \<noteq> [] \<and> finalTarget fivePages = Some 5
      \<and> ((5::int) < 10 \<or> 200 < (5::int))"
    by code_simp
  from handleGenerate_rejects_invalid_input [of blankTopic silentEnv 5] blank
  have 1: "handleGenerate silentEnv blankTopic = Some (blankTopic, [])" by blast
  from handleGenerate_rejects_invalid_input [of fivePages silentEnv 5] five
  have 2: "handleGenerate silentEnv fivePages
      = Some (fivePages\<lparr>error := Some (Message range_error)\<rparr>, [])" by blast
  from 1 2 show ?thesis by blast
qed

text \<open>
  C4 as stated fails: with a topic of three spaces (and a target of 5 pages) the
  invocation is rejected but no validation error is surfaced; the error field stays empty.
\<close>

theorem blank_topic_shows_no_error:
  "handleGenerate silentEnv blankTopic = Some (blankTopic, []) \<and> error blankTopic = None"
  by code_simp

subsection \<open>The enrichment loop\<close>

lemma enrichLoop_exit:
  "\<not> (\<not> isProto \<and> below_target cur i ppc \<and> length c < 15000) \<Longrightarrow>
   enrichLoop E opts isProto chapters ttl i ppc c cur k = Some (Inr c, k)"
  by (subst enrichLoop.simps) auto

lemma enrichLoop_throw:
  "\<not> isProto \<Longrightarrow> below_target cur i ppc \<Longrightarrow> length c < 15000 \<Longrightarrow>
   refineText E c Enrich = Inl e \<Longrightarrow>
   enrichLoop E opts isProto chapters ttl i ppc c cur k = Some (Inl e, k + 1)"
  by (subst enrichLoop.simps) simp

lemma enrichLoop_step:
  "\<not> isProto \<Longrightarrow> below_target cur i ppc \<Longrightarrow> length c < 15000 \<Longrightarrow>
   refineText E c Enrich = Inr c' \<Longrightarrow>
   enrichLoop E opts isProto chapters ttl i ppc c cur k =
   enrichLoop E opts isProto chapters ttl i ppc c'
     (estimatePageCount (chapters @ [draft ttl c']) opts) (k + 1)"
  by (subst enrichLoop.simps) simp

lemma enrichLoop_returns:
  assumes grows:
    "\<And>t t'. length t < 15000 \<Longrightarrow> refineText E t Enrich = Inr t' \<Longrightarrow> length t < length t'"
  shows "\<exists>r n. enrichLoop E opts isProto chapters ttl i ppc c cur k = Some (r, n)
           \<and> n \<le> k + (15000 - length c)"
proof (induction "15000 - length c" arbitrary: c cur k rule: less_induct)
  case less
  show ?case
  proof (cases "\<not> isProto \<and> below_target cur i ppc \<and> length c < 15000")
    case False
    then show ?thesis by (simp add: enrichLoop_exit)
  next
    case True
    then have np: "\<not> isProto" and bt: "below_target cur i ppc" and len: "length c < 15000"
      by simp_all
    show ?thesis
    proof (cases "refineText E c Enrich")
      case (Inl e)
      with np bt len show ?thesis by (simp add: enrichLoop_throw)
    next
      case (Inr c')
      with len grows have longer: "length c < length c'" by blast
      with len have "15000 - length c' < 15000 - length c" by simp
      from less.hyps [OF this]
      obtain r n where
        "enrichLoop E opts isProto chapters ttl i ppc c'
           (estimatePageCount (chapters @ [draft ttl c']) opts) (k + 1) = Some (r, n)"
        "n \<le> k + 1 + (15000 - length c')"
        by blast
      with np bt len Inr longer show ?thesis by (simp add: enrichLoop_step)
    qed
  qed
qed

text \<open>
  A run of the loop that returns did not start where the enrichment gives the text back
  unchanged while the loop condition holds.
\<close>

lemma enrichLoop_stuck:
  assumes run: "enrichLoop E opts isProto chapters ttl i ppc c cur k = Some r"
  shows "\<not> (\<not> isProto \<and> length c < 15000 \<and> refineText E c Enrich = Inr c
            \<and> cur = estimatePageCount (chapters @ [draft ttl c]) opts
            \<and> below_target cur i ppc)"
proof (rule enrichLoop.raw_induct
    [where P = "\<lambda>E opts isProto chapters ttl i ppc c cur k r.
        \<not> (\<not> isProto \<and> length c < 15000 \<and> refineText E c Enrich = Inr c
            \<and> cur = estimatePageCount (chapters @ [draft ttl c]) opts
            \<and> below_target cur i ppc)", OF _ run])
  fix f :: "env \<Rightarrow> PDFOptions \<Rightarrow> bool \<Rightarrow> Chapter list \<Rightarrow> jsstring option \<Rightarrow> nat \<Rightarrow> int option
    \<Rightarrow> jsstring \<Rightarrow> int \<Rightarrow> nat \<Rightarrow> ((exn + jsstring) \<times> nat) option"
  fix E opts isProto chapters ttl i ppc c cur k r
  assume IH: "\<And>E opts isProto chapters ttl i ppc c cur k r.
      f E opts isProto chapters ttl i ppc c cur k = Some r \<Longrightarrow>
      \<not> (\<not> isProto \<and> length c < 15000 \<and> refineText E c Enrich = Inr c
            \<and> cur = estimatePageCount (chapters @ [draft ttl c]) opts
            \<and> below_target cur i ppc)"
    and eq: "(if \<not> isProto \<and> below_target cur i ppc \<and> length c < 15000 then
        (case refineText E c Enrich of
           Inl e \<Rightarrow> Some (Inl e, k + 1)
         | Inr moreContent \<Rightarrow>
             f E opts isProto chapters ttl i ppc moreContent
               (estimatePageCount (chapters @ [draft ttl moreContent]) opts) (k + 1))
      else Some (Inr c, k)) = Some r"
  show "\<not> (\<not> isProto \<and> length c < 15000 \<and> refineText E c Enrich = Inr c
            \<and> cur = estimatePageCount (chapters @ [draft ttl c]) opts
            \<and> below_target cur i ppc)"
  proof
    assume stuck: "\<not> isProto \<and> length c < 15000 \<and> refineText E c Enrich = Inr c
            \<and> cur = estimatePageCount (chapters @ [draft ttl c]) opts
            \<and> below_target cur i ppc"
    then have np: "\<not> isProto" and len: "length c < 15000"
      and same: "refineText E c Enrich = Inr c"
      and cur: "cur = estimatePageCount (chapters @ [draft ttl c]) opts"
      and bt: "below_target cur i ppc"
      by blast+
    from eq np len bt have "f E opts isProto chapters ttl i ppc c cur (k + 1) = Some r"
      by (simp add: same cur [symmetric])
    from IH [OF this] stuck show False by blast
  qed
qed

lemma enrichLoop_diverges:
  "\<not> isProto \<Longrightarrow> length c < 15000 \<Longrightarrow> refineText E c Enrich = Inr c \<Longrightarrow>
   cur = estimatePageCount (chapters @ [draft ttl c]) opts \<Longrightarrow> below_target cur i ppc \<Longrightarrow>
   enrichLoop E opts isProto chapters ttl i ppc c cur k = None"
  using enrichLoop_stuck [of E opts isProto chapters ttl i ppc c cur k]
  by (cases "enrichLoop E opts isProto chapters ttl i ppc c cur k") auto

lemma estimate_empty_draft: "estimatePageCount [draft t []] opts = 3"
proof -
  have "\<lceil>(25::rat) / 237\<rceil> = 1" by code_simp
  then show ?thesis
    by (simp add: estimatePageCount_def add_chapter_def chapterY_def draft_def paragraphs_of_def
        add_paragraph_def lines_of_def contentHeightPerPage_def pageHeight_def margin_def
        lineHeight_def)
qed

lemma handleGenerate_stuck:
  assumes "trim (topic s) \<noteq> []" and "\<not> out_of_range (finalTarget s)"
    and "generateOutline E (topic s) (ebookType s) (finalTarget s) (isPrototype s) = Inr go"
    and "po_chapters go = Some plans"
    and "\<And>s'. chapterLoop E (pdfOptions s) (isPrototype s) (imageStyle s) (po_title go)
           (pagesPerChapter (finalTarget s) (length plans)) 0 plans [] s' [OutlineCall] = None"
  shows "handleGenerate E s = None"
  using assms by (simp add: handleGenerate_def Let_def)

text \<open>
  C1, as amended. If every enrichment call on a text shorter than 15,000 code units
  returns a strictly longer text (or throws), the enrichment loop of a chapter ends, after
  at most 15,000 minus the length of the first content calls. Nothing else caps the number
  of iterations.
\<close>

theorem enrichLoop_bounded_when_enrichment_lengthens:
  assumes "\<forall>t t'. length t < 15000 \<and> refineText E t Enrich = Inr t' \<longrightarrow> length t < length t'"
  shows "\<exists>r n. enrichLoop E opts isProto chapters ttl i ppc c cur 0 = Some (r, n)
           \<and> n \<le> 15000 - length c"
  using enrichLoop_returns [of E opts isProto chapters ttl i ppc c cur 0] assms by auto

text \<open>
  The amended C1 for a backend that appends \<^verbatim>\<open> and more\<close> at each call, on an empty first
  chapter below its target of five pages.
\<close>

theorem enrichLoop_bounded_witness:
  "\<exists>r n. enrichLoop growEnv defaultOptions False [] (Some (js ''One'')) 0 (Some 5) [] 3 0
            = Some (r, n) \<and> n \<le> 15000 - length ([] :: jsstring)"
proof -
  have "\<forall>t t'. length t < 15000 \<and> refineText growEnv t Enrich = Inr t'
      \<longrightarrow> length t < length t'"
    by (auto simp: refineText_def growEnv_def silentEnv_def js_def)
  from enrichLoop_bounded_when_enrichment_lengthens [OF this] show ?thesis .
qed

text \<open>
  C1 as stated fails: a run for 50 pages, not in prototype mode, with an outline of ten
  chapters (five pages each) and a backend that returns no text. The first chapter is
  empty and estimated at 3 pages, below 5; \<^verbatim>\<open>refineText\<close> gives the text back unchanged, so
  the loop condition never changes and the invocation never returns.
\<close>

theorem enrichment_never_ends:
  "handleGenerate (outlineEnv (replicate 10 (plan ''Chapter''))) fiftyPages = None"
proof (rule handleGenerate_stuck)
  let ?E = "outlineEnv (replicate 10 (plan ''Chapter''))"
  let ?go = "\<lparr>po_title = Some (js ''Guide''),
              po_chapters = Some (replicate 10 (plan ''Chapter''))\<rparr>"
  show "trim (topic fiftyPages) \<noteq> []" by code_simp
  show "\<not> out_of_range (finalTarget fiftyPages)" by code_simp
  show "generateOutline ?E (topic fiftyPages) (ebookType fiftyPages) (finalTarget fiftyPages)
      (isPrototype fiftyPages) = Inr ?go"
    by (simp add: generateOutline_def outlineEnv_def silentEnv_def)
  show "po_chapters ?go = Some (replicate 10 (plan ''Chapter''))" by simp
  have same: "refineText (outlineEnv ps) [] Enrich = Inr []" for ps
    by (simp add: refineText_def outlineEnv_def silentEnv_def)
  have loop: "enrichLoop (outlineEnv ps) opts False [] ttl 0 (Some 5) [] 3 0 = None"
    for ps opts ttl
    by (rule enrichLoop_diverges)
       (simp_all add: same estimate_empty_draft below_target_def)
  have ppc: "pagesPerChapter (finalTarget fiftyPages) (length (replicate 10 (plan ''Chapter'')))
      = Some 5"
    by code_simp
  have plans: "replicate 10 (plan ''Chapter'') = plan ''Chapter'' # replicate 9 (plan ''Chapter'')"
    by (simp add: numeral_eq_Suc)
  have content: "generateChapterContent (outlineEnv ps) a b c d e = Inr []" for ps a b c d e
    by (simp add: generateChapterContent_def outlineEnv_def silentEnv_def)
  have proto: "isPrototype fiftyPages = False"
    by (simp add: fiftyPages_def initialSession_def)
  have first: "chapterLoop (outlineEnv ps) opts False style bt (Some 5) 0
      (plan ''Chapter'' # rest) [] s' tr = None"
    for ps opts style bt rest s' tr
    by (simp add: plan_def content estimate_empty_draft loop)
  show "chapterLoop ?E (pdfOptions fiftyPages) (isPrototype fiftyPages) (imageStyle fiftyPages)
      (po_title ?go)
      (pagesPerChapter (finalTarget fiftyPages) (length (replicate 10 (plan ''Chapter''))))
      0 (replicate 10 (plan ''Chapter'')) [] s' [OutlineCall] = None" for s'
    unfolding ppc proto by (subst (2) plans) (rule first)
qed

subsection \<open>The chapter loop\<close>

lemma count_other_replicate: "x \<noteq> y \<Longrightarrow> count_list (replicate k x) y = 0"
  by (induction k) simp_all


lemma refineText_throws: "refineText E t act = Inl e \<longleftrightarrow> refine_call E t act = Inl e"
  by (auto simp: refineText_def split: sum.splits option.splits)

lemma enrichLoop_throw_cause:
  assumes run: "enrichLoop E opts isProto chapters ttl i ppc c cur k = Some r"
  shows "\<forall>e n. r = (Inl e, n) \<longrightarrow> (\<exists>t. refineText E t Enrich = Inl e)"
proof (rule enrichLoop.raw_induct
    [where P = "\<lambda>E opts isProto chapters ttl i ppc c cur k r.
        \<forall>e n. r = (Inl e, n) \<longrightarrow> (\<exists>t. refineText E t Enrich = Inl e)", OF _ run])
  fix f :: "env \<Rightarrow> PDFOptions \<Rightarrow> bool \<Rightarrow> Chapter list \<Rightarrow> jsstring option \<Rightarrow> nat \<Rightarrow> int option
    \<Rightarrow> jsstring \<Rightarrow> int \<Rightarrow> nat \<Rightarrow> ((exn + jsstring) \<times> nat) option"
  fix E opts isProto chapters ttl i ppc c cur k r
  assume IH: "\<And>E opts isProto chapters ttl i ppc c cur k r.
      f E opts isProto chapters ttl i ppc c cur k = Some r \<Longrightarrow>
      \<forall>e n. r = (Inl e, n) \<longrightarrow> (\<exists>t. refineText E t Enrich = Inl e)"
    and eq: "(if \<not> isProto \<and> below_target cur i ppc \<and> length c < 15000 then
        (case refineText E c Enrich of
           Inl e \<Rightarrow> Some (Inl e, k + 1)
         | Inr moreContent \<Rightarrow>
             f E opts isProto chapters ttl i ppc moreContent
               (estimatePageCount (chapters @ [draft ttl moreContent]) opts) (k + 1))
      else Some (Inr c, k)) = Some r"
  show "\<forall>e n. r = (Inl e, n) \<longrightarrow> (\<exists>t. refineText E t Enrich = Inl e)"
  proof (cases "\<not> isProto \<and> below_target cur i ppc \<and> length c < 15000")
    case False
    with eq show ?thesis by auto
  next
    case True
    show ?thesis
    proof (cases "refineText E c Enrich")
      case (Inl e)
      with True eq show ?thesis by auto
    next
      case (Inr c')
      with True eq have "f E opts isProto chapters ttl i ppc c'
               (estimatePageCount (chapters @ [draft ttl c']) opts) (k + 1) = Some r"
        by simp
      from IH [OF this] show ?thesis .
    qed
  qed
qed

lemma chapterLoop_returns:
  assumes "isProto \<or> (\<forall>t t'. length t < 15000 \<and> refineText E t Enrich = Inr t'
             \<longrightarrow> length t < length t')"
  shows "\<exists>r s' tr'. chapterLoop E opts isProto style bt ppc i plans chapters s tr
           = Some (r, s', tr')"
proof (induction plans arbitrary: i chapters s tr)
  case Nil
  show ?case by simp
next
  case (Cons p rest)
  show ?case
  proof (cases "cp_sections p")
    case None
    then show ?thesis by simp
  next
    case (Some sections)
    show ?thesis
    proof (cases "generateChapterContent E bt (cp_title p) (map s_title sections) ppc isProto")
      case (Inl e)
      with Some show ?thesis by simp
    next
      case (Inr content0)
      let ?cur = "estimatePageCount (chapters @ [draft (cp_title p) content0]) opts"
      have "\<exists>r n. enrichLoop E opts isProto chapters (cp_title p) i ppc content0 ?cur 0
          = Some (r, n)"
      proof (cases isProto)
        case True
        then show ?thesis by (simp add: enrichLoop_exit)
      next
        case False
        with assms have "\<And>t t'. length t < 15000 \<Longrightarrow> refineText E t Enrich = Inr t'
            \<Longrightarrow> length t < length t'" by blast
        from enrichLoop_returns [OF this] show ?thesis by blast
      qed
      then obtain out k where
        loop: "enrichLoop E opts isProto chapters (cp_title p) i ppc content0 ?cur 0
                 = Some (out, k)" by blast
      show ?thesis
      proof (cases out)
        case (Inl e)
        with Some Inr loop show ?thesis by simp
      next
        case content1: (Inr content1)
        with Some Inr loop Cons.IH show ?thesis by (simp add: Let_def)
      qed
    qed
  qed
qed

lemma chapterLoop_outcome:
  assumes "chapterLoop E opts isProto style bt ppc i plans chapters s tr = Some (r, s', tr')"
  shows "count_list tr' OutlineCall = count_list tr OutlineCall
       \<and> error s' = error s \<and> state s' = state s
       \<and> (\<forall>e. r = Inl e \<longrightarrow>
             (\<exists>p \<in> set plans. cp_sections p = None)
             \<or> (\<exists>a b c d. chapter_call E a b c d = Inl e)
             \<or> (\<exists>t. refine_call E t Enrich = Inl e))
       \<and> (\<forall>chs. r = Inr chs \<longrightarrow>
             (\<forall>p \<in> set plans. cp_sections p \<noteq> None)
             \<and> length chs = length chapters + length plans
             \<and> (generatedChapters s = chapters \<longrightarrow> generatedChapters s' = chs))"
  using assms
proof (induction plans arbitrary: i chapters s tr)
  case Nil
  then show ?case by auto
next
  case (Cons p rest)
  let ?s = "s\<lparr>currentChapterIndex := i\<rparr>"
  show ?case
  proof (cases "cp_sections p")
    case None
    with Cons.prems show ?thesis by auto
  next
    case (Some sections)
    show ?thesis
    proof (cases "generateChapterContent E bt (cp_title p) (map s_title sections) ppc isProto")
      case (Inl e)
      then have "chapter_call E bt (cp_title p) (map s_title sections) (targetWords ppc isProto)
          = Inl e"
        by (auto simp: generateChapterContent_def split: sum.splits option.splits)
      with Inl Some Cons.prems show ?thesis by auto
    next
      case (Inr content0)
      let ?cur = "estimatePageCount (chapters @ [draft (cp_title p) content0]) opts"
      show ?thesis
      proof (cases "enrichLoop E opts isProto chapters (cp_title p) i ppc content0 ?cur 0")
        case None
        with Some Inr Cons.prems(1) show ?thesis by simp
      next
        case loop: (Some res)
        obtain out k where res: "res = (out, k)" by (cases res)
        show ?thesis
        proof (cases out)
          case (Inl e)
          from enrichLoop_throw_cause [OF loop] res Inl
          have "\<exists>t. refine_call E t Enrich = Inl e" by (simp add: refineText_throws)
          with Some Inr loop res Inl Cons.prems
          show ?thesis by (auto simp: count_other_replicate)
        next
          case content1: (Inr content1)
          let ?wanted = "i mod (if isProto then 1 else 3) = 0"
          let ?img = "if ?wanted then
                        (case generateImage E (cp_title p) style of
                           Inl e \<Rightarrow> None | Inr url \<Rightarrow> Some url)
                      else None"
          let ?ch = "\<lparr>title = cp_title p, content = content1, image = ?img, chart = None\<rparr>"
          let ?chapters = "chapters @ [?ch]"
          let ?s2 = "?s\<lparr>generatedChapters := ?chapters,
                        estimatedPages := estimatePageCount ?chapters opts\<rparr>"
          let ?tr2 = "tr @ [ChapterCall i] @ replicate k (RefineCall i)
                        @ (if ?wanted then [ImageCall i] else [])"
          from Some Inr loop res content1 Cons.prems(1)
          have run: "chapterLoop E opts isProto style bt ppc (i + 1) rest ?chapters ?s2 ?tr2
                       = Some (r, s', tr')"
            by (simp add: Let_def)
          have cnt: "count_list ?tr2 OutlineCall = count_list tr OutlineCall"
            by (simp add: count_other_replicate)
          from Cons.IH [OF run] cnt Some show ?thesis by auto
        qed
      qed
    qed
  qed
qed

lemma handleGenerate_returns:
  assumes "isPrototype s \<or> (\<forall>t t'. length t < 15000 \<and> refineText E t Enrich = Inr t'
             \<longrightarrow> length t < length t')"
  shows "\<exists>s' tr. handleGenerate E s = Some (s', tr)"
proof (cases "trim (topic s) = [] \<or> out_of_range (finalTarget s)")
  case True
  then show ?thesis by (auto simp: handleGenerate_def Let_def)
next
  case valid: False
  show ?thesis
  proof (cases "generateOutline E (topic s) (ebookType s) (finalTarget s) (isPrototype s)")
    case (Inl e)
    with valid show ?thesis by (simp add: handleGenerate_def Let_def)
  next
    case (Inr go)
    show ?thesis
    proof (cases "po_chapters go")
      case None
      with Inr valid show ?thesis by (simp add: handleGenerate_def Let_def)
    next
      case (Some plans)
      let ?s1 = "s\<lparr>state := Outline, error := None, outline := None, generatedChapters := [],
                    currentChapterIndex := 0, estimatedPages := 0, outline := Some go,
                    state := Content\<rparr>"
      from chapterLoop_returns [OF assms]
      obtain r s4 tr4 where
        "chapterLoop E (pdfOptions s) (isPrototype s) (imageStyle s) (po_title go)
           (pagesPerChapter (finalTarget s) (length plans)) 0 plans [] ?s1 [OutlineCall]
         = Some (r, s4, tr4)" by blast
      with Inr Some valid show ?thesis
        by (auto simp: handleGenerate_def Let_def split: sum.splits option.splits)
    qed
  qed
qed

text \<open>What a run that passed the input checks and returned went through.\<close>

lemma handleGenerate_run:
  assumes run: "handleGenerate E s = Some (s', tr)"
    and valid: "trim (topic s) \<noteq> []" "\<not> out_of_range (finalTarget s)"
    and go: "generateOutline E (topic s) (ebookType s) (finalTarget s) (isPrototype s) = Inr go"
    and plans: "po_chapters go = Some plans"
  obtains r s4 tr4 where
    "chapterLoop E (pdfOptions s) (isPrototype s) (imageStyle s) (po_title go)
       (pagesPerChapter (finalTarget s) (length plans)) 0 plans []
       (s\<lparr>state := Outline, error := None, outline := None, generatedChapters := [],
          currentChapterIndex := 0, estimatedPages := 0, outline := Some go,
          state := Content\<rparr>) [OutlineCall]
     = Some (r, s4, tr4)"
    and "case r of
           Inl e \<Rightarrow> s' = caught e s4 \<and> tr = tr4
         | Inr chs \<Rightarrow> tr = tr4 @ [MarketingCall] \<and>
             (case render_call E (po_title go) chs (pdfOptions s) of
                Some e \<Rightarrow> s' = caught e (s4\<lparr>state := Pdf\<rparr>)
              | None \<Rightarrow>
                  (case po_title go of
                     None \<Rightarrow> s' = caught TypeError (s4\<lparr>state := Pdf\<rparr>)
                   | Some t \<Rightarrow> s' = s4\<lparr>state := Pdf, state := Done\<rparr>))"
proof -
  let ?loop = "chapterLoop E (pdfOptions s) (isPrototype s) (imageStyle s) (po_title go)
       (pagesPerChapter (finalTarget s) (length plans)) 0 plans []
       (s\<lparr>state := Outline, error := None, outline := None, generatedChapters := [],
          currentChapterIndex := 0, estimatedPages := 0, outline := Some go,
          state := Content\<rparr>) [OutlineCall]"
  from run valid go plans obtain r s4 tr4 where loop: "?loop = Some (r, s4, tr4)"
    by (cases ?loop) (auto simp: handleGenerate_def Let_def)
  with run valid go plans have "case r of
           Inl e \<Rightarrow> s' = caught e s4 \<and> tr = tr4
         | Inr chs \<Rightarrow> tr = tr4 @ [MarketingCall] \<and>
             (case render_call E (po_title go) chs (pdfOptions s) of
                Some e \<Rightarrow> s' = caught e (s4\<lparr>state := Pdf\<rparr>)
              | None \<Rightarrow>
                  (case po_title go of
                     None \<Rightarrow> s' = caught TypeError (s4\<lparr>state := Pdf\<rparr>)
                   | Some t \<Rightarrow> s' = s4\<lparr>state := Pdf, state := Done\<rparr>))"
    by (auto simp: handleGenerate_def Let_def split: sum.splits option.splits)
  with loop that show thesis by blast
qed

subsection \<open>A failing outline\<close>

text \<open>
  C3, as amended. After the input checks, an invocation fails as a whole, ending in the
  error state with an error text set and with no second outline call, whenever the
  outline call throws, returns text that is not JSON or no text, or returns JSON that
  lacks the \<^verbatim>\<open>chapters\<close> property, the \<^verbatim>\<open>title\<close>, or the \<^verbatim>\<open>sections\<close> of a chapter. When the
  call, the JSON syntax, the \<^verbatim>\<open>chapters\<close> property or the first chapter's sections are at
  fault, it fails at once: the outline call is the only backend call and no chapter is
  kept. When the title or a later chapter's sections are missing, every invocation that
  returns ends in the error state with exactly one outline call, and it does return in
  prototype mode or when each enrichment returns a longer text. Nothing requires the
  chapter list to be non-empty or a chapter to have a title.
\<close>

theorem outline_failure_is_terminal:
  assumes valid: "trim (topic s) \<noteq> []" "\<not> out_of_range (finalTarget s)"
  shows "((case outline_call E (topic s) (ebookType s) (finalTarget s)
                  (chaptersCount (finalTarget s) (isPrototype s)) of
             Inl e \<Rightarrow> True
           | Inr NoText \<Rightarrow> True
           | Inr NotJson \<Rightarrow> True
           | Inr (Json v) \<Rightarrow>
               po_chapters v = None
               \<or> (\<exists>p rest. po_chapters v = Some (p # rest) \<and> cp_sections p = None))
          \<longrightarrow> (\<exists>s'. handleGenerate E s = Some (s', [OutlineCall]) \<and> state s' = Error
                 \<and> error s' \<noteq> None \<and> generatedChapters s' = []))
       \<and> (outline_call E (topic s) (ebookType s) (finalTarget s)
               (chaptersCount (finalTarget s) (isPrototype s)) = Inr (Json v)
            \<and> po_chapters v = Some plans
            \<and> (po_title v = None \<or> (\<exists>p \<in> set plans. cp_sections p = None))
          \<longrightarrow> (\<forall>s' tr. handleGenerate E s = Some (s', tr) \<longrightarrow>
                   state s' = Error \<and> error s' \<noteq> None \<and> count_list tr OutlineCall = 1)
              \<and> (isPrototype s
                   \<or> (\<forall>t t'. length t < 15000 \<and> refineText E t Enrich = Inr t'
                         \<longrightarrow> length t < length t')
                  \<longrightarrow> (\<exists>s' tr. handleGenerate E s = Some (s', tr))))"
proof -
  have early: "\<exists>s'. handleGenerate E s = Some (s', [OutlineCall]) \<and> state s' = Error
                 \<and> error s' \<noteq> None \<and> generatedChapters s' = []"
    if "case outline_call E (topic s) (ebookType s) (finalTarget s)
                  (chaptersCount (finalTarget s) (isPrototype s)) of
             Inl e \<Rightarrow> True
           | Inr NoText \<Rightarrow> True
           | Inr NotJson \<Rightarrow> True
           | Inr (Json v) \<Rightarrow>
               po_chapters v = None
               \<or> (\<exists>p rest. po_chapters v = Some (p # rest) \<and> cp_sections p = None)"
    using that valid
    by (auto simp: handleGenerate_def generateOutline_def caught_def Let_def
        split: sum.splits outline_text.splits)
  have late: "state s' = Error \<and> error s' \<noteq> None \<and> count_list tr OutlineCall = 1"
    if bad: "outline_call E (topic s) (ebookType s) (finalTarget s)
               (chaptersCount (finalTarget s) (isPrototype s)) = Inr (Json v)
            \<and> po_chapters v = Some plans
            \<and> (po_title v = None \<or> (\<exists>p \<in> set plans. cp_sections p = None))"
      and run: "handleGenerate E s = Some (s', tr)" for s' tr
  proof -
  from bad have go: "generateOutline E (topic s) (ebookType s) (finalTarget s) (isPrototype s)
      = Inr v"
    by (simp add: generateOutline_def)
  from bad have plans: "po_chapters v = Some plans" by simp
  from handleGenerate_run [OF run valid go plans]
  obtain r s4 tr4 where
    loop: "chapterLoop E (pdfOptions s) (isPrototype s) (imageStyle s) (po_title v)
       (pagesPerChapter (finalTarget s) (length plans)) 0 plans []
       (s\<lparr>state := Outline, error := None, outline := None, generatedChapters := [],
          currentChapterIndex := 0, estimatedPages := 0, outline := Some v,
          state := Content\<rparr>) [OutlineCall]
     = Some (r, s4, tr4)"
    and fin: "case r of
           Inl e \<Rightarrow> s' = caught e s4 \<and> tr = tr4
         | Inr chs \<Rightarrow> tr = tr4 @ [MarketingCall] \<and>
             (case render_call E (po_title v) chs (pdfOptions s) of
                Some e \<Rightarrow> s' = caught e (s4\<lparr>state := Pdf\<rparr>)
              | None \<Rightarrow>
                  (case po_title v of
                     None \<Rightarrow> s' = caught TypeError (s4\<lparr>state := Pdf\<rparr>)
                   | Some t \<Rightarrow> s' = s4\<lparr>state := Pdf, state := Done\<rparr>))"
    by blast
  note out = chapterLoop_outcome [OF loop]
  show ?thesis
  proof (cases r)
    case (Inl e)
    with fin out show ?thesis by (simp add: caught_def)
  next
    case (Inr chs)
    with out have "\<forall>p \<in> set plans. cp_sections p \<noteq> None" by simp
    with bad have "po_title v = None" by blast
    with Inr fin out show ?thesis by (auto simp: caught_def split: option.splits)
  qed
  qed
  have returns: "\<exists>s' tr. handleGenerate E s = Some (s', tr)"
    if "isPrototype s
      \<or> (\<forall>t t'. length t < 15000 \<and> refineText E t Enrich = Inr t' \<longrightarrow> length t < length t')"
    using handleGenerate_returns [OF that] .
  from early late returns show ?thesis by blast
qed

text \<open>
  The amended C3 in prototype mode: a response that is not JSON, an outline without a
  title, and an outline whose second chapter has no sections.
\<close>

theorem outline_failure_is_terminal_witness:
  "(\<exists>s'. handleGenerate notJsonEnv productivity = Some (s', [OutlineCall]) \<and> state s' = Error
      \<and> error s' \<noteq> None \<and> generatedChapters s' = [])
   \<and> (\<exists>s' tr. handleGenerate (shapeEnv noTitle) productivity = Some (s', tr)
      \<and> state s' = Error \<and> error s' \<noteq> None \<and> count_list tr OutlineCall = 1)
   \<and> (\<exists>s' tr. handleGenerate (shapeEnv noSections) productivity = Some (s', tr)
      \<and> state s' = Error \<and> error s' \<noteq> None \<and> count_list tr OutlineCall = 1)"
proof -
  have v1: "trim (topic productivity) \<noteq> []" by code_simp
  have v2: "\<not> out_of_range (finalTarget productivity)" by code_simp
  have proto: "isPrototype productivity" by (simp add: productivity_def initialSession_def)
  have a: "case outline_call notJsonEnv (topic productivity) (ebookType productivity)
               (finalTarget productivity)
               (chaptersCount (finalTarget productivity) (isPrototype productivity)) of
          Inl e \<Rightarrow> True
        | Inr NoText \<Rightarrow> True
        | Inr NotJson \<Rightarrow> True
        | Inr (Json v) \<Rightarrow> po_chapters v = None
            \<or> (\<exists>p rest. po_chapters v = Some (p # rest) \<and> cp_sections p = None)"
    by (simp add: notJsonEnv_def silentEnv_def)
  from outline_failure_is_terminal [OF v1 v2, of notJsonEnv, THEN conjunct1, rule_format, OF a]
  have 1: "\<exists>s'. handleGenerate notJsonEnv productivity = Some (s', [OutlineCall])
      \<and> state s' = Error \<and> error s' \<noteq> None \<and> generatedChapters s' = []" .
  have late: "\<exists>s' tr. handleGenerate (shapeEnv v) productivity = Some (s', tr)
      \<and> state s' = Error \<and> error s' \<noteq> None \<and> count_list tr OutlineCall = 1"
    if plans: "po_chapters v = Some plans"
      and bad: "po_title v = None \<or> (\<exists>p \<in> set plans. cp_sections p = None)" for v plans
  proof -
    have call: "outline_call (shapeEnv v) (topic productivity) (ebookType productivity)
               (finalTarget productivity)
               (chaptersCount (finalTarget productivity) (isPrototype productivity))
        = Inr (Json v)"
      by (simp add: shapeEnv_def silentEnv_def)
    from outline_failure_is_terminal [OF v1 v2, of "shapeEnv v" v plans, THEN conjunct2]
      call plans bad
    have b: "(\<forall>s' tr. handleGenerate (shapeEnv v) productivity = Some (s', tr) \<longrightarrow>
                   state s' = Error \<and> error s' \<noteq> None \<and> count_list tr OutlineCall = 1)
        \<and> (isPrototype productivity
             \<or> (\<forall>t t'. length t < 15000 \<and> refineText (shapeEnv v) t Enrich = Inr t'
                   \<longrightarrow> length t < length t')
            \<longrightarrow> (\<exists>s' tr. handleGenerate (shapeEnv v) productivity = Some (s', tr)))"
      by blast
    with proto obtain s' tr where "handleGenerate (shapeEnv v) productivity = Some (s', tr)"
      by blast
    with b show ?thesis by blast
  qed
  have 2: "\<exists>s' tr. handleGenerate (shapeEnv noTitle) productivity = Some (s', tr)
      \<and> state s' = Error \<and> error s' \<noteq> None \<and> count_list tr OutlineCall = 1"
    by (rule late [of _ "[plan ''One'']"]) (simp_all add: noTitle_def)
  have 3: "\<exists>s' tr. handleGenerate (shapeEnv noSections) productivity = Some (s', tr)
      \<and> state s' = Error \<and> error s' \<noteq> None \<and> count_list tr OutlineCall = 1"
    by (rule late [of _ "[plan ''One'', \<lparr>cp_title = Some (js ''Two''), cp_sections = None\<rparr>]"])
       (simp_all add: noSections_def)
  from 1 2 3 show ?thesis by blast
qed

text \<open>
  C3 as stated fails: an outline with a title and an empty chapter list is not of the
  Outline shape (it has no chapter), yet the invocation ends in the state \<^verbatim>\<open>done\<close> with no
  error, after the outline call and the marketing call; so does an outline whose only
  chapter has no title.
\<close>

theorem empty_outline_is_accepted:
  "handleGenerate (outlineEnv []) productivity
     = Some (productivity
              \<lparr>state := Done, error := None,
               outline := Some \<lparr>po_title = Some (js ''Guide''), po_chapters = Some []\<rparr>,
               generatedChapters := []\<rparr>,
             [OutlineCall, MarketingCall])
   \<and> map_option (\<lambda>(s', tr). (state s', error s', map title (generatedChapters s'), tr))
        (handleGenerate (shapeEnv noChapterTitle) productivity)
     = Some (Done, None, [None], [OutlineCall, ChapterCall 0, ImageCall 0, MarketingCall])"
  by code_simp

subsection \<open>Illustrations are best effort\<close>



end
